theory Spec2Isabelle
  imports Complex_Main
begin

section \<open>Data model\<close>

text \<open>
  The repository consists of two modules, \<^verbatim>\<open>api.py\<close> (a FastAPI application with the
  single route \<^verbatim>\<open>POST /analyze\<close>) and \<^verbatim>\<open>feedback-classifier-gradio/app.py\<close> (a Gradio
  form). Both load one \<^verbatim>\<open>transformers\<close> sentiment pipeline at import time and call it once
  per request.

  A Python \<^verbatim>\<open>float\<close> is an IEEE double. Every finite double is a dyadic rational, so a
  finite score is modelled by its exact value; the negative zero and the three non-finite
  values are separate constructors.
\<close>

datatype pyfloat = Finite rat | NegZero | PosInf | NegInf | NaN

fun is_finite :: "pyfloat \<Rightarrow> bool" where
  "is_finite (Finite q) = True"
| "is_finite NegZero = True"
| "is_finite PosInf = False"
| "is_finite NegInf = False"
| "is_finite NaN = False"

text \<open>
  A Python \<^verbatim>\<open>str\<close> is a sequence of code points. A \<open>char\<close> has eight bits, so a \<open>string\<close>
  of the model is a Python string whose code points lie below 256, the character \<open>c\<close>
  being the code point \<open>of_char c\<close>. Capitalising such a string can leave that range, so
  the text the form displays is a list of code points.
\<close>

type_synonym codepoints = "nat list"

definition str_of :: "string \<Rightarrow> codepoints" where
  "str_of s = map of_char s"

text \<open>
  One element of the list the pipeline returns: the dictionary
  \<^verbatim>\<open>{'label': ..., 'score': ...}\<close>.
\<close>

record result =
  label :: string
  score :: pyfloat

text \<open>
  Exceptions. \<open>Raised\<close> carries whatever the pipeline raised, \<open>IndexError\<close> is what
  \<^verbatim>\<open>[0]\<close> raises on an empty list, \<open>RequestValidationError\<close> is the framework's rejection of
  a request body, \<open>ValueError\<close> is what the JSON encoder raises on a float that JSON
  cannot express.
\<close>

datatype error = Raised string | IndexError | RequestValidationError | ValueError

text \<open>
  The object \<^verbatim>\<open>classifier\<close>: called with one string, it returns a list of results or
  raises. It is a parameter of the model.
\<close>

type_synonym pipeline = "string \<Rightarrow> error + result list"

text \<open>JSON values; an object keeps its members in the order they were written.\<close>

datatype json =
    JNull
  | JBool bool
  | JInt int
  | JFloat pyfloat
  | JString string
  | JArray "json list"
  | JObject "(string \<times> json) list"

text \<open>
  A Python \<^verbatim>\<open>dict\<close> with string keys, as an association list. Reading a key takes the
  last binding, as \<^verbatim>\<open>json.loads\<close> does for a repeated member name.
\<close>

type_synonym dict = "(string \<times> json) list"

definition dict_get :: "dict \<Rightarrow> string \<Rightarrow> json option" where
  "dict_get d k = map_of (rev d) k"

text \<open>The request model \<^verbatim>\<open>class Feedback(BaseModel): text: str\<close>.\<close>

record Feedback =
  feedback_text :: string

text \<open>
  The module-level state of a running front-end: the process environment and the global
  \<^verbatim>\<open>classifier\<close>.
\<close>

type_synonym env = "string \<rightharpoonup> string"

record process =
  environ :: env
  classifier :: pipeline

section \<open>Process startup\<close>

text \<open>
  Both modules run the same two statements at import time:
  \<^verbatim>\<open>os.environ["PYTORCH_CUDA_ALLOC_CONF"] = ""\<close> and then
  \<^verbatim>\<open>classifier = pipeline('sentiment-analysis', model=...)\<close>. Loading the model is the
  parameter \<open>load\<close>; it sees the environment as the assignment left it, and it may raise,
  in which case the process never serves. The \<^verbatim>\<open>import\<close> statements above the assignment
  are library code and are taken not to consult the variable.
\<close>

definition startup :: "(env \<Rightarrow> error + pipeline) \<Rightarrow> env \<Rightarrow> error + process" where
  "startup load env0 =
     (let env1 = env0(''PYTORCH_CUDA_ALLOC_CONF'' \<mapsto> '''')
      in case load env1 of
           Inl e \<Rightarrow> Inl e
         | Inr c \<Rightarrow> Inr \<lparr>environ = env1, classifier = c\<rparr>)"

section \<open>The HTTP front-end\<close>

text \<open>
  The expression \<^verbatim>\<open>classifier(...)\<close>. Evaluating it is the only way a handler reaches the
  pipeline; besides the pipeline's answer it yields the record of the call, the text the
  pipeline was given.
\<close>

definition call_classifier :: "process \<Rightarrow> string \<Rightarrow> (error + result list) \<times> string list" where
  "call_classifier p t = (classifier p t, [t])"

text \<open>Python's \<^verbatim>\<open>xs[0]\<close>.\<close>

definition index0 :: "'a list \<Rightarrow> error + 'a" where
  "index0 xs = (case xs of [] \<Rightarrow> Inl IndexError | x # _ \<Rightarrow> Inr x)"

text \<open>
  \<^verbatim>\<open>analyze_feedback\<close> of \<^verbatim>\<open>api.py\<close>. The second component of the value lists the calls
  to \<^verbatim>\<open>classifier\<close> made while the handler ran; the handler has one call site and no loop.
\<close>

definition analyze_feedback_api :: "process \<Rightarrow> Feedback \<Rightarrow> (error + dict) \<times> string list" where
  "analyze_feedback_api p feedback =
     (case call_classifier p (feedback_text feedback) of
        (returned, calls) \<Rightarrow>
          ((case returned of
              Inl e \<Rightarrow> Inl e
            | Inr rs \<Rightarrow>
                (case index0 rs of
                   Inl e \<Rightarrow> Inl e
                 | Inr result \<Rightarrow>
                     Inr [(''feedback'', JString (feedback_text feedback)),
                          (''sentiment'', JString (label result)),
                          (''score'', JFloat (score result))])),
           calls))"

text \<open>
  What the framework hands to validation: either the request body did not decode as JSON,
  or it decoded to a JSON value.
\<close>

datatype body = Malformed | Parsed json

text \<open>
  Modelled from the spec: the validation of the request body against \<^verbatim>\<open>Feedback\<close> is done
  by FastAPI and pydantic, which are not part of the repository. The spec's words are
  ``accepts POST with a JSON body containing a \<^verbatim>\<open>text\<close> field'', ``no validation beyond
  is a string'' and ``malformed JSON or missing field: fails with a request-validation
  error (422-class)''; the outcome \<open>Inl RequestValidationError\<close> stands for that
  response. Members other than \<^verbatim>\<open>text\<close> are ignored.
\<close>

definition validate_Feedback :: "body \<Rightarrow> error + Feedback" where
  "validate_Feedback b =
     (case b of
        Malformed \<Rightarrow> Inl RequestValidationError
      | Parsed j \<Rightarrow>
          (case j of
             JObject members \<Rightarrow>
               (case dict_get members ''text'' of
                  Some (JString s) \<Rightarrow> Inr \<lparr>feedback_text = s\<rparr>
                | _ \<Rightarrow> Inl RequestValidationError)
           | _ \<Rightarrow> Inl RequestValidationError))"

text \<open>
  Modelled from the spec: the response body is JSON (``response body
  \<^verbatim>\<open>{"feedback": "<string>", "sentiment": ..., "score": <float>}\<close>''), written by the
  framework from the dictionary the handler returns. JSON has no numeral for nan or for
  the infinities, and the framework's encoder (\<^verbatim>\<open>json.dumps\<close> with \<^verbatim>\<open>allow_nan=False\<close>)
  raises \<^verbatim>\<open>ValueError\<close> on them; nothing catches it, so no response body is produced and the
  caller gets the server-error answer. Every other value is written as it is.
\<close>

fun json_compliant :: "json \<Rightarrow> bool" where
  "json_compliant (JFloat x) = is_finite x"
| "json_compliant (JArray items) = list_all json_compliant items"
| "json_compliant (JObject members) = list_all json_compliant (map snd members)"
| "json_compliant _ = True"

definition render_json :: "dict \<Rightarrow> error + dict" where
  "render_json content =
     (if list_all json_compliant (map snd content) then Inr content else Inl ValueError)"

text \<open>
  The route \<^verbatim>\<open>@app.post("/analyze")\<close>: the handler runs on a validated \<^verbatim>\<open>Feedback\<close>
  only, a rejected body never reaches it; what the handler returns is rendered, what it
  raises is passed on.
\<close>

definition post_analyze :: "process \<Rightarrow> body \<Rightarrow> (error + dict) \<times> string list" where
  "post_analyze p b =
     (case validate_Feedback b of
        Inl e \<Rightarrow> (Inl e, [])
      | Inr feedback \<Rightarrow>
          (case analyze_feedback_api p feedback of
             (Inl e, calls) \<Rightarrow> (Inl e, calls)
           | (Inr content, calls) \<Rightarrow> (render_json content, calls)))"



section \<open>The interactive front-end\<close>

text \<open>
  \<^verbatim>\<open>str.capitalize\<close> belongs to the Python runtime: it puts the first character in title
  case and the others in lower case, by the case mappings of the Unicode character
  database. For the code points below 256 these mappings are: lower case adds 32 to
  A..Z (65..90) and to U+00C0..U+00DE except the multiplication sign U+00D7; upper case
  and title case subtract 32 from a..z (97..122) and from U+00E0..U+00FE except the
  division sign U+00F7, send the micro sign U+00B5 to U+039C and U+00FF to U+0178; and
  the sharp s U+00DF has the upper case SS and the title case Ss. Every other code point
  below 256 is its own image.
\<close>

definition lower_char :: "char \<Rightarrow> nat" where
  "lower_char c =
     (let n = (of_char c :: nat)
      in if (65 \<le> n \<and> n \<le> 90) \<or> (192 \<le> n \<and> n \<le> 222 \<and> n \<noteq> 215) then n + 32 else n)"


definition title_char :: "char \<Rightarrow> codepoints" where
  "title_char c =
     (let n = (of_char c :: nat)
      in if (97 \<le> n \<and> n \<le> 122) \<or> (224 \<le> n \<and> n \<le> 254 \<and> n \<noteq> 247) then [n - 32]
         else if n = 181 then [924]
         else if n = 223 then [83, 115]
         else if n = 255 then [376]
         else [n])"

definition capitalize :: "string \<Rightarrow> codepoints" where
  "capitalize s = (case s of [] \<Rightarrow> [] | c # cs \<Rightarrow> title_char c @ map lower_char cs)"

text \<open>
  The format specification \<^verbatim>\<open>.4f\<close>. Python converts the exact value of the double,
  rounding to the nearest multiple of \<open>10\<^sup>-\<^sup>4\<close> and a tie to the even one.
\<close>

definition round_half_even :: "rat \<Rightarrow> int" where
  "round_half_even x =
     (let f = \<lfloor>x\<rfloor>; d = x - of_int f
      in if d < 1 / 2 then f else if 1 / 2 < d then f + 1 else if even f then f else f + 1)"

definition digit_char :: "nat \<Rightarrow> char" where
  "digit_char d = char_of (48 + d)"

function str_nat :: "nat \<Rightarrow> string" where
  "str_nat n = (if n < 10 then [digit_char n] else str_nat (n div 10) @ [digit_char (n mod 10)])"
  by pat_completeness auto
termination
  by (relation "measure (\<lambda>n. n)") auto

declare str_nat.simps [simp del]

definition frac4 :: "nat \<Rightarrow> string" where
  "frac4 n = [digit_char (n div 1000 mod 10), digit_char (n div 100 mod 10),
              digit_char (n div 10 mod 10), digit_char (n mod 10)]"

definition format_fixed4 :: "bool \<Rightarrow> rat \<Rightarrow> string" where
  "format_fixed4 negative magnitude =
     (let n = nat (round_half_even (magnitude * 10000))
      in (if negative then ''-'' else '''') @ str_nat (n div 10000) @ ''.'' @ frac4 (n mod 10000))"

fun format_4f :: "pyfloat \<Rightarrow> string" where
  "format_4f (Finite q) = format_fixed4 (q < 0) \<bar>q\<bar>"
| "format_4f NegZero = format_fixed4 True 0"
| "format_4f PosInf = ''inf''"
| "format_4f NegInf = ''-inf''"
| "format_4f NaN = ''nan''"

text \<open>
  \<^verbatim>\<open>analyze_feedback\<close> of \<^verbatim>\<open>app.py\<close>, lines 12 to 14 first: the text built from one
  result. The newline is the code point 10.
\<close>

definition format_result :: "result \<Rightarrow> codepoints" where
  "format_result result =
     (let sentiment = capitalize (label result);
          score = score result
      in str_of ''Sentiment: '' @ sentiment @ [10] @ str_of ''Confidence: ''
         @ str_of (format_4f score))"

definition analyze_feedback_form ::
  "process \<Rightarrow> string \<Rightarrow> (error + codepoints) \<times> string list" where
  "analyze_feedback_form p feedback =
     (case call_classifier p feedback of
        (returned, calls) \<Rightarrow>
          ((case returned of
              Inl e \<Rightarrow> Inl e
            | Inr rs \<Rightarrow>
                (case index0 rs of
                   Inl e \<Rightarrow> Inl e
                 | Inr result \<Rightarrow> Inr (format_result result))),
           calls))"



section \<open>Reading the contract\<close>

text \<open>The score lies in the closed unit interval (as Python compares floats).\<close>

fun in_unit_interval :: "pyfloat \<Rightarrow> bool" where
  "in_unit_interval (Finite q) = (0 \<le> q \<and> q \<le> 1)"
| "in_unit_interval NegZero = True"
| "in_unit_interval PosInf = False"
| "in_unit_interval NegInf = False"
| "in_unit_interval NaN = False"

text \<open>
  The request body \<^verbatim>\<open>{"text": t}\<close>.
\<close>

definition text_body :: "string \<Rightarrow> body" where
  "text_body t = Parsed (JObject [(''text'', JString t)])"



text \<open>
  Equality up to case is equality after case folding (\<^verbatim>\<open>str.casefold\<close>). The folding is
  given for the code points a capitalised label of the model can contain, those below 256
  and the two images U+0178 and U+039C; it is applied to no other.
\<close>

definition fold_case :: "nat \<Rightarrow> codepoints" where
  "fold_case n =
     (if (65 \<le> n \<and> n \<le> 90) \<or> (192 \<le> n \<and> n \<le> 222 \<and> n \<noteq> 215) then [n + 32]
      else if n = 223 then [115, 115]
      else if n = 181 \<or> n = 924 then [956]
      else if n = 376 then [255]
      else [n])"

definition casefold :: "codepoints \<Rightarrow> codepoints" where
  "casefold s = concat (map fold_case s)"

text \<open>
  Reading a displayed number back. A decimal numeral is an optional minus sign, digits, a
  point and digits; \<open>decimal_value\<close> is the number it denotes. A number \<open>v\<close> is \<open>q\<close>
  rounded to four decimal places when it is a multiple of \<open>10\<^sup>-\<^sup>4\<close> nearest to \<open>q\<close>, and the
  even multiple when \<open>q\<close> lies half way between two. None of these occurs in the source.
\<close>

definition is_digit :: "char \<Rightarrow> bool" where
  "is_digit c = (48 \<le> (of_char c :: nat) \<and> (of_char c :: nat) \<le> 57)"

definition digit_value :: "char \<Rightarrow> nat" where
  "digit_value c = of_char c - 48"

definition nat_of_digits :: "string \<Rightarrow> nat" where
  "nat_of_digits s = foldl (\<lambda>a c. 10 * a + digit_value c) 0 s"

definition decimal_value :: "string \<Rightarrow> rat option" where
  "decimal_value s =
     (let negative = (take 1 s = ''-'');
          u = (if negative then drop 1 s else s);
          ip = takeWhile (\<lambda>c. c \<noteq> CHR ''.'') u;
          fp = drop 1 (dropWhile (\<lambda>c. c \<noteq> CHR ''.'') u)
      in if ip \<noteq> [] \<and> fp \<noteq> [] \<and> list_all is_digit ip \<and> list_all is_digit fp
         then Some ((if negative then - 1 else 1) *
                    (of_nat (nat_of_digits ip) + of_nat (nat_of_digits fp) / 10 ^ length fp))
         else None)"

definition is_rounded4 :: "rat \<Rightarrow> rat \<Rightarrow> bool" where
  "is_rounded4 q v =
     (let n = \<lfloor>v * 10000\<rfloor>
      in v * 10000 = of_int n \<and> \<bar>v - q\<bar> \<le> 1 / 20000 \<and> (\<bar>v - q\<bar> = 1 / 20000 \<longrightarrow> even n))"

section \<open>Properties of the formatting functions\<close>

lemma is_digit_digit_char: "d < 10 \<Longrightarrow> is_digit (digit_char d)"
  by (simp add: is_digit_def digit_char_def)

lemma digit_value_digit_char: "d < 10 \<Longrightarrow> digit_value (digit_char d) = d"
  by (simp add: digit_value_def digit_char_def)

lemma str_nat_digits: "list_all is_digit (str_nat n)"
proof (induction n rule: str_nat.induct)
  case (1 n)
  show ?case
  proof (cases "n < 10")
    case True
    then show ?thesis by (subst str_nat.simps) (simp add: is_digit_digit_char)
  next
    case False
    with "1" show ?thesis by (subst str_nat.simps) (simp add: is_digit_digit_char)
  qed
qed

lemma str_nat_nonempty: "str_nat n \<noteq> []"
  by (subst str_nat.simps) simp

lemma nat_of_digits_snoc: "nat_of_digits (s @ [c]) = 10 * nat_of_digits s + digit_value c"
  by (simp add: nat_of_digits_def)

lemma nat_of_digits_str_nat: "nat_of_digits (str_nat n) = n"
proof (induction n rule: str_nat.induct)
  case (1 n)
  show ?case
  proof (cases "n < 10")
    case True
    then show ?thesis
      by (subst str_nat.simps) (simp add: nat_of_digits_def digit_value_digit_char)
  next
    case False
    with "1" show ?thesis
      by (subst str_nat.simps) (simp add: nat_of_digits_snoc digit_value_digit_char)
  qed
qed

lemma frac4_digits: "list_all is_digit (frac4 n)"
  by (simp add: frac4_def is_digit_digit_char)

lemma length_frac4: "length (frac4 n) = 4"
  by (simp add: frac4_def)

lemma frac4_nonempty: "frac4 n \<noteq> []"
  by (simp add: frac4_def)

lemma frac4_value:
  assumes "(n::nat) < 10000"
  shows "10 * (10 * (10 * (n div 1000 mod 10) + n div 100 mod 10) + n div 10 mod 10)
           + n mod 10 = n"
proof -
  define a where "a = n div 10"
  define b where "b = a div 10"
  define c where "c = b div 10"
  have d100: "n div 100 = b"
    unfolding a_def b_def by (simp add: div_mult2_eq [symmetric])
  have d1000: "n div 1000 = c"
    unfolding a_def b_def c_def by (simp add: div_mult2_eq [symmetric])
  have "c < 10"
    using assms unfolding d1000 [symmetric] by (simp add: div_less_iff_less_mult)
  then have c: "c mod 10 = c" by simp
  have n: "n = 10 * a + n mod 10" unfolding a_def by simp
  have a: "a = 10 * b + a mod 10" unfolding b_def by simp
  have b: "b = 10 * c + b mod 10" unfolding c_def by simp
  have "10 * (10 * (10 * c + b mod 10) + a mod 10) + n mod 10 = n"
    using n a b by simp
  then show ?thesis
    unfolding d100 d1000 c a_def [symmetric] .
qed

lemma nat_of_digits_frac4: "n < 10000 \<Longrightarrow> nat_of_digits (frac4 n) = n"
  using frac4_value [of n]
  by (simp add: frac4_def nat_of_digits_def digit_value_digit_char)

lemma round_half_even_of_int: "round_half_even (of_int z) = z"
  by (simp add: round_half_even_def)

lemma round_half_even_uminus: "round_half_even (- x) = - round_half_even x"
proof (cases "x = of_int \<lfloor>x\<rfloor>")
  case True
  then obtain z where "x = of_int z" ..
  then show ?thesis
    using round_half_even_of_int [of z] round_half_even_of_int [of "- z"] by simp
next
  case False
  have lo: "of_int \<lfloor>x\<rfloor> < x"
    using False of_int_floor_le [of x] unfolding less_le by auto
  have hi: "x < of_int \<lfloor>x\<rfloor> + 1" by linarith
  have fl: "\<lfloor>- x\<rfloor> = - \<lfloor>x\<rfloor> - 1"
    using lo hi by (intro floor_unique) simp_all
  have d': "- x - of_int \<lfloor>- x\<rfloor> = 1 - (x - of_int \<lfloor>x\<rfloor>)"
    by (simp add: fl)
  consider "x - of_int \<lfloor>x\<rfloor> < 1 / 2" | "1 / 2 < x - of_int \<lfloor>x\<rfloor>"
    | "x - of_int \<lfloor>x\<rfloor> = 1 / 2"
    by linarith
  then show ?thesis
  proof cases
    case 1
    then have a: "round_half_even x = \<lfloor>x\<rfloor>" by (simp add: round_half_even_def)
    from 1 d' have "1 / 2 < - x - of_int \<lfloor>- x\<rfloor>" by linarith
    then have "round_half_even (- x) = \<lfloor>- x\<rfloor> + 1"
      unfolding round_half_even_def Let_def by simp
    with a fl show ?thesis by simp
  next
    case 2
    then have a: "round_half_even x = \<lfloor>x\<rfloor> + 1"
      unfolding round_half_even_def Let_def by simp
    from 2 d' have "- x - of_int \<lfloor>- x\<rfloor> < 1 / 2" by linarith
    then have "round_half_even (- x) = \<lfloor>- x\<rfloor>"
      unfolding round_half_even_def Let_def by simp
    with a fl show ?thesis by simp
  next
    case 3
    then have a: "round_half_even x = (if even \<lfloor>x\<rfloor> then \<lfloor>x\<rfloor> else \<lfloor>x\<rfloor> + 1)"
      unfolding round_half_even_def Let_def by simp
    from 3 d' have "- x - of_int \<lfloor>- x\<rfloor> = 1 / 2" by linarith
    then have "round_half_even (- x) = (if even \<lfloor>- x\<rfloor> then \<lfloor>- x\<rfloor> else \<lfloor>- x\<rfloor> + 1)"
      unfolding round_half_even_def Let_def by simp
    with a fl show ?thesis by simp
  qed
qed

lemma round_half_even_nonneg: "0 \<le> x \<Longrightarrow> 0 \<le> round_half_even x"
  unfolding round_half_even_def Let_def by simp

lemma round_half_even_near: "\<bar>of_int (round_half_even x) - x\<bar> \<le> 1 / 2"
proof -
  have lo: "of_int \<lfloor>x\<rfloor> \<le> x" by simp
  have hi: "x < of_int \<lfloor>x\<rfloor> + 1" by linarith
  consider "x - of_int \<lfloor>x\<rfloor> < 1 / 2" | "1 / 2 < x - of_int \<lfloor>x\<rfloor>"
    | "x - of_int \<lfloor>x\<rfloor> = 1 / 2"
    by linarith
  then show ?thesis
  proof cases
    case 1
    then have "round_half_even x = \<lfloor>x\<rfloor>" by (simp add: round_half_even_def)
    with 1 lo show ?thesis by (simp add: abs_le_iff)
  next
    case 2
    then have "round_half_even x = \<lfloor>x\<rfloor> + 1" by (simp add: round_half_even_def)
    with 2 hi show ?thesis by (simp add: abs_le_iff)
  next
    case 3
    then have "round_half_even x = \<lfloor>x\<rfloor> \<or> round_half_even x = \<lfloor>x\<rfloor> + 1"
      by (simp add: round_half_even_def Let_def)
    with 3 show ?thesis by (auto simp: abs_le_iff)
  qed
qed

lemma not_digit_point: "\<not> is_digit (CHR ''.'')" and not_digit_minus: "\<not> is_digit (CHR ''-'')"
  by (simp_all add: is_digit_def)

lemma decimal_value_digits:
  assumes ip: "list_all is_digit ip" "ip \<noteq> []" and fp: "list_all is_digit fp" "fp \<noteq> []"
  shows "decimal_value ((if negative then ''-'' else '''') @ ip @ ''.'' @ fp) =
           Some ((if negative then - 1 else 1) *
                 (of_nat (nat_of_digits ip) + of_nat (nat_of_digits fp) / 10 ^ length fp))"
proof -
  have nopoint: "\<And>c. c \<in> set ip \<Longrightarrow> c \<noteq> CHR ''.''"
    using ip(1) not_digit_point by (auto simp: list_all_iff)
  have tw: "takeWhile (\<lambda>c. c \<noteq> CHR ''.'') (ip @ ''.'' @ fp) = ip"
    using nopoint by (simp add: takeWhile_append2)
  have dw: "dropWhile (\<lambda>c. c \<noteq> CHR ''.'') (ip @ ''.'' @ fp) = ''.'' @ fp"
    using nopoint by (simp add: dropWhile_append2)
  obtain c cs where ipc: "ip = c # cs" using ip(2) by (cases ip) auto
  with ip(1) have "is_digit c" by simp
  with not_digit_minus have cm: "c \<noteq> CHR ''-''" by auto
  show ?thesis
  proof (cases negative)
    case True
    then show ?thesis
      using tw dw ip fp by (simp add: decimal_value_def)
  next
    case False
    have "take 1 (ip @ ''.'' @ fp) \<noteq> ''-''" using ipc cm by simp
    with False show ?thesis
      using tw dw ip fp by (simp add: decimal_value_def)
  qed
qed

lemma decimal_value_format_fixed4:
  assumes "0 \<le> m"
  shows "decimal_value (format_fixed4 negative m) =
           Some ((if negative then - 1 else 1) * (of_int (round_half_even (m * 10000)) / 10000))"
proof -
  define n where "n = nat (round_half_even (m * 10000))"
  have "0 \<le> round_half_even (m * 10000)"
    using assms by (intro round_half_even_nonneg) simp
  then have n: "of_int (round_half_even (m * 10000)) = (of_nat n :: rat)"
    by (simp add: n_def)
  have split: "(of_nat (n div 10000) :: rat) + of_nat (n mod 10000) / 10000 = of_nat n / 10000"
  proof -
    have "(of_nat n :: rat) = of_nat (10000 * (n div 10000) + n mod 10000)" by simp
    also have "\<dots> = 10000 * of_nat (n div 10000) + of_nat (n mod 10000)"
      unfolding of_nat_add of_nat_mult by simp
    finally have e: "(of_nat n :: rat) / 10000
                       = (10000 * of_nat (n div 10000) + of_nat (n mod 10000)) / 10000"
      by (rule arg_cong)
    show ?thesis unfolding e by (simp add: add_divide_distrib)
  qed
  have "decimal_value (format_fixed4 negative m) =
          decimal_value ((if negative then ''-'' else '''') @ str_nat (n div 10000) @ ''.'' @
                         frac4 (n mod 10000))"
    by (simp add: format_fixed4_def Let_def n_def)
  also have "\<dots> = Some ((if negative then - 1 else 1) *
                 (of_nat (nat_of_digits (str_nat (n div 10000)))
                  + of_nat (nat_of_digits (frac4 (n mod 10000))) / 10 ^ length (frac4 (n mod 10000))))"
    by (rule decimal_value_digits)
       (rule str_nat_digits, rule str_nat_nonempty, rule frac4_digits, rule frac4_nonempty)
  also have "\<dots> = Some ((if negative then - 1 else 1) * (of_nat n / 10000))"
    using split by (simp add: nat_of_digits_str_nat nat_of_digits_frac4 length_frac4)
  finally show ?thesis by (simp add: n)
qed

lemma decimal_value_format_4f:
  "decimal_value (format_4f (Finite q)) = Some (of_int (round_half_even (q * 10000)) / 10000)"
proof (cases "q < 0")
  case True
  then have "decimal_value (format_4f (Finite q)) =
               Some (- (of_int (round_half_even (- q * 10000)) / 10000))"
    using decimal_value_format_fixed4 [of "- q" True] by simp
  also have "- q * 10000 = - (q * 10000)" by simp
  finally show ?thesis
    by (simp add: round_half_even_uminus)
next
  case False
  then show ?thesis
    using decimal_value_format_fixed4 [of q False] by simp
qed

lemma round_half_even_tie:
  assumes "\<bar>of_int (round_half_even x) - x\<bar> = 1 / 2"
  shows "even (round_half_even x)"
proof -
  have lo: "of_int \<lfloor>x\<rfloor> \<le> x" by simp
  have hi: "x < of_int \<lfloor>x\<rfloor> + 1" by linarith
  consider "x - of_int \<lfloor>x\<rfloor> < 1 / 2" | "1 / 2 < x - of_int \<lfloor>x\<rfloor>"
    | "x - of_int \<lfloor>x\<rfloor> = 1 / 2"
    by linarith
  then show ?thesis
  proof cases
    case 1
    then have "round_half_even x = \<lfloor>x\<rfloor>" by (simp add: round_half_even_def)
    with 1 lo assms show ?thesis by simp
  next
    case 2
    then have "round_half_even x = \<lfloor>x\<rfloor> + 1"
      unfolding round_half_even_def Let_def by simp
    with 2 hi assms show ?thesis by simp
  next
    case 3
    then have "round_half_even x = (if even \<lfloor>x\<rfloor> then \<lfloor>x\<rfloor> else \<lfloor>x\<rfloor> + 1)"
      unfolding round_half_even_def Let_def by simp
    then show ?thesis by simp
  qed
qed

lemma is_rounded4_round_half_even:
  "is_rounded4 q (of_int (round_half_even (q * 10000)) / 10000)"
proof -
  define n where "n = round_half_even (q * 10000)"
  define v :: rat where "v = of_int n / 10000"
  have scaled: "v * 10000 = of_int n" by (simp add: v_def)
  have fl: "\<lfloor>v * 10000\<rfloor> = n" by (simp add: scaled)
  have dist: "\<bar>v - q\<bar> = \<bar>of_int n - q * 10000\<bar> / 10000"
  proof -
    have "v - q = (of_int n - q * 10000) / 10000" by (simp add: v_def diff_divide_distrib)
    then have "\<bar>v - q\<bar> = \<bar>(of_int n - q * 10000) / 10000\<bar>" by (rule arg_cong)
    also have "\<dots> = \<bar>of_int n - q * 10000\<bar> / \<bar>10000\<bar>" by (rule abs_divide)
    finally show ?thesis by simp
  qed
  have near: "\<bar>of_int n - q * 10000\<bar> \<le> 1 / 2"
    unfolding n_def by (rule round_half_even_near)
  have a: "\<bar>v - q\<bar> \<le> 1 / 20000"
    using near unfolding dist by simp
  have b: "\<bar>v - q\<bar> = 1 / 20000 \<longrightarrow> even n"
  proof
    assume "\<bar>v - q\<bar> = 1 / 20000"
    then have "\<bar>of_int n - q * 10000\<bar> = 1 / 2" unfolding dist by simp
    then show "even n" unfolding n_def by (rule round_half_even_tie)
  qed
  from scaled fl a b have "is_rounded4 q v"
    by (simp add: is_rounded4_def Let_def)
  then show ?thesis by (simp add: v_def n_def)
qed

lemma format_4f_rounded:
  "\<exists>v. decimal_value (format_4f (Finite q)) = Some v \<and> is_rounded4 q v"
  using decimal_value_format_4f is_rounded4_round_half_even by blast



section \<open>Properties of the case mappings\<close>




lemma fold_case_title:
  fixes n :: nat
  shows "concat (map fold_case
           (if (97 \<le> n \<and> n \<le> 122) \<or> (224 \<le> n \<and> n \<le> 254 \<and> n \<noteq> 247) then [n - 32]
            else if n = 181 then [924]
            else if n = 223 then [83, 115]
            else if n = 255 then [376]
            else [n])) = fold_case n"
proof -
  consider "97 \<le> n \<and> n \<le> 122" | "224 \<le> n \<and> n \<le> 254 \<and> n \<noteq> 247" | "n = 181" | "n = 223"
    | "n = 255"
    | "\<not> ((97 \<le> n \<and> n \<le> 122) \<or> (224 \<le> n \<and> n \<le> 254 \<and> n \<noteq> 247)) \<and> n \<noteq> 181 \<and> n \<noteq> 223
        \<and> n \<noteq> 255"
    by blast
  then show ?thesis
  proof cases
    case 1
    then have "65 \<le> n - 32 \<and> n - 32 \<le> 90" by arith
    with 1 show ?thesis by (simp add: fold_case_def)
  next
    case 2
    then have "192 \<le> n - 32 \<and> n - 32 \<le> 222 \<and> n - 32 \<noteq> 215" by arith
    with 2 show ?thesis by (simp add: fold_case_def)
  next
    case 3
    then show ?thesis by (simp add: fold_case_def)
  next
    case 4
    then show ?thesis by (simp add: fold_case_def)
  next
    case 5
    then show ?thesis by (simp add: fold_case_def)
  next
    case 6
    then have "\<not> ((97 \<le> n \<and> n \<le> 122) \<or> (224 \<le> n \<and> n \<le> 254 \<and> n \<noteq> 247))" by blast
    with 6 show ?thesis by (simp only: if_False) simp
  qed
qed

lemma casefold_title_char: "casefold (title_char c) = fold_case (of_char c)"
  using fold_case_title [of "of_char c"] by (simp add: casefold_def title_char_def Let_def)

lemma fold_case_lower:
  fixes n :: nat
  shows "fold_case (if (65 \<le> n \<and> n \<le> 90) \<or> (192 \<le> n \<and> n \<le> 222 \<and> n \<noteq> 215) then n + 32 else n)
           = fold_case n"
  by (simp add: fold_case_def)

lemma fold_case_lower_char: "fold_case (lower_char c) = fold_case (of_char c)"
  using fold_case_lower [of "of_char c"] by (simp add: lower_char_def Let_def)

lemma casefold_append: "casefold (xs @ ys) = casefold xs @ casefold ys"
  by (simp add: casefold_def)

lemma casefold_map_lower_char: "casefold (map lower_char cs) = casefold (str_of cs)"
  by (induction cs) (simp_all add: casefold_def str_of_def fold_case_lower_char)

lemma casefold_capitalize: "casefold (capitalize s) = casefold (str_of s)"
proof (cases s)
  case Nil
  then show ?thesis by (simp add: capitalize_def str_of_def)
next
  case (Cons c cs)
  have "casefold (str_of (c # cs)) = fold_case (of_char c) @ casefold (str_of cs)"
    by (simp add: casefold_def str_of_def)
  with Cons show ?thesis
    by (simp add: capitalize_def casefold_append casefold_title_char casefold_map_lower_char)
qed




section \<open>Evaluating the format on given scores\<close>

lemma str_nat_small: "n < 10 \<Longrightarrow> str_nat n = [digit_char n]"
  by (subst str_nat.simps) simp


lemma format_4f_tie_down: "format_4f (Finite (1 / 32)) = ''0.0312''"
proof -
  define q :: rat where "q = 1 / 32"
  have fl: "\<lfloor>q * 10000\<rfloor> = 312"
    unfolding q_def by (simp add: floor_eq_iff)
  have d: "q * 10000 - of_int 312 = 1 / 2"
    unfolding q_def by simp
  have rhe: "round_half_even (q * 10000) = 312"
    unfolding round_half_even_def Let_def fl using d by simp
  have pos: "\<not> q < 0" "\<bar>q\<bar> = q"
    unfolding q_def by simp_all
  have "format_4f (Finite q) = ''0.0312''"
    by (simp add: format_fixed4_def Let_def pos rhe frac4_def str_nat_small digit_char_def
                  char_of_def bit_Suc_0_iff)
  then show ?thesis unfolding q_def .
qed


section \<open>Properties of the handlers\<close>

lemma is_finite_in_unit_interval: "in_unit_interval x \<Longrightarrow> is_finite x"
  by (cases x) simp_all

lemma analyze_feedback_api_eq:
  "analyze_feedback_api p feedback =
     ((case classifier p (feedback_text feedback) of
         Inl e \<Rightarrow> Inl e
       | Inr rs \<Rightarrow>
           (case rs of
              [] \<Rightarrow> Inl IndexError
            | result # _ \<Rightarrow>
                Inr [(''feedback'', JString (feedback_text feedback)),
                     (''sentiment'', JString (label result)),
                     (''score'', JFloat (score result))])),
      [feedback_text feedback])"
  by (simp add: analyze_feedback_api_def call_classifier_def index0_def
           split: sum.splits list.splits)

lemma analyze_feedback_form_eq:
  "analyze_feedback_form p t =
     ((case classifier p t of
         Inl e \<Rightarrow> Inl e
       | Inr rs \<Rightarrow> (case rs of [] \<Rightarrow> Inl IndexError | result # _ \<Rightarrow> Inr (format_result result))),
      [t])"
  by (simp add: analyze_feedback_form_def call_classifier_def index0_def
           split: sum.splits list.splits)

lemma validate_text_body: "validate_Feedback (text_body t) = Inr \<lparr>feedback_text = t\<rparr>"
  by (simp add: validate_Feedback_def text_body_def dict_get_def)



section \<open>Indexing the result list\<close>

text \<open>
  C10. Both handlers take element 0 of the list the pipeline returns, with no guard. When
  the list is non-empty the value is built from its first element alone; when it is empty
  the handler raises \<open>IndexError\<close>; and a handler that returns a value was given a
  non-empty list.
\<close>

theorem handlers_index_first_result:
  "(classifier p t = Inr (r # rs) \<longrightarrow>
      fst (analyze_feedback_api p \<lparr>feedback_text = t\<rparr>) =
        Inr [(''feedback'', JString t), (''sentiment'', JString (label r)),
             (''score'', JFloat (score r))]
      \<and> fst (analyze_feedback_form p t) = Inr (format_result r))
   \<and> (classifier p t = Inr [] \<longrightarrow>
      fst (analyze_feedback_api p \<lparr>feedback_text = t\<rparr>) = Inl IndexError
      \<and> fst (analyze_feedback_form p t) = Inl IndexError)
   \<and> (\<forall>v. fst (analyze_feedback_api p \<lparr>feedback_text = t\<rparr>) = Inr v \<longrightarrow>
          (\<exists>r' rs'. classifier p t = Inr (r' # rs')))
   \<and> (\<forall>v. fst (analyze_feedback_form p t) = Inr v \<longrightarrow>
          (\<exists>r' rs'. classifier p t = Inr (r' # rs')))"
  by (auto simp: analyze_feedback_api_eq analyze_feedback_form_eq
           split: sum.splits list.splits)

theorem handlers_index_first_result_witness:
  "fst (analyze_feedback_api
          \<lparr>environ = Map.empty,
           classifier = (\<lambda>t. Inr [\<lparr>label = ''POSITIVE'', score = Finite (3 / 4)\<rparr>,
                                   \<lparr>label = ''NEGATIVE'', score = Finite (1 / 4)\<rparr>])\<rparr>
          \<lparr>feedback_text = ''fine''\<rparr>)
     = Inr [(''feedback'', JString ''fine''), (''sentiment'', JString ''POSITIVE''),
            (''score'', JFloat (Finite (3 / 4)))]
   \<and> fst (analyze_feedback_form \<lparr>environ = Map.empty, classifier = (\<lambda>t. Inr [])\<rparr> ''fine'')
     = Inl IndexError"
  using handlers_index_first_result
          [of "\<lparr>environ = Map.empty,
                classifier = (\<lambda>t. Inr [\<lparr>label = ''POSITIVE'', score = Finite (3 / 4)\<rparr>,
                                        \<lparr>label = ''NEGATIVE'', score = Finite (1 / 4)\<rparr>])\<rparr>"
              "''fine''" "\<lparr>label = ''POSITIVE'', score = Finite (3 / 4)\<rparr>"
              "[\<lparr>label = ''NEGATIVE'', score = Finite (1 / 4)\<rparr>]"]
        handlers_index_first_result
          [of "\<lparr>environ = Map.empty, classifier = (\<lambda>t. Inr [])\<rparr>" "''fine''"]
  by simp

section \<open>The HTTP response\<close>

text \<open>
  C1. When the body of a request to \<^verbatim>\<open>POST /analyze\<close> is a JSON object whose \<^verbatim>\<open>text\<close>
  member is a string, the \<^verbatim>\<open>feedback\<close> member of the response is that string, unchanged:
  every response the endpoint returns carries it, and a response is returned whenever the
  pipeline yields at least one result whose score is a finite number.
\<close>

theorem post_analyze_feedback_verbatim:
  assumes "dict_get members ''text'' = Some (JString t)"
  shows "(\<forall>resp. fst (post_analyze p (Parsed (JObject members))) = Inr resp \<longrightarrow>
            dict_get resp ''feedback'' = Some (JString t))
       \<and> (\<forall>r rs. classifier p t = Inr (r # rs) \<and> is_finite (score r) \<longrightarrow>
            (\<exists>resp. fst (post_analyze p (Parsed (JObject members))) = Inr resp
                    \<and> dict_get resp ''feedback'' = Some (JString t)))"
  using assms
  by (auto simp: post_analyze_def validate_Feedback_def analyze_feedback_api_eq render_json_def
                 dict_get_def
           split: sum.splits list.splits if_splits)

theorem post_analyze_feedback_verbatim_witness:
  "fst (post_analyze
         \<lparr>environ = Map.empty,
          classifier = (\<lambda>t. Inr [\<lparr>label = ''POSITIVE'', score = Finite (99 / 100)\<rparr>])\<rparr>
         (Parsed (JObject [(''text'', JString ''I love this product!'')])))
     = Inr [(''feedback'', JString ''I love this product!''),
            (''sentiment'', JString ''POSITIVE''),
            (''score'', JFloat (Finite (99 / 100)))]
   \<and> dict_get [(''feedback'', JString ''I love this product!''),
                (''sentiment'', JString ''POSITIVE''),
                (''score'', JFloat (Finite (99 / 100)))] ''feedback''
       = Some (JString ''I love this product!'')"
proof -
  let ?p = "\<lparr>environ = Map.empty,
             classifier = (\<lambda>t. Inr [\<lparr>label = ''POSITIVE'', score = Finite (99 / 100)\<rparr>])\<rparr>"
  let ?m = "[(''text'', JString ''I love this product!'')]"
  have h: "dict_get ?m ''text'' = Some (JString ''I love this product!'')"
    by (simp add: dict_get_def)
  have run: "fst (post_analyze ?p (Parsed (JObject ?m)))
     = Inr [(''feedback'', JString ''I love this product!''),
            (''sentiment'', JString ''POSITIVE''),
            (''score'', JFloat (Finite (99 / 100)))]"
    by (simp add: post_analyze_def validate_Feedback_def analyze_feedback_api_eq render_json_def
                  dict_get_def)
  from post_analyze_feedback_verbatim [OF h, of ?p] run show ?thesis
    by blast
qed

text \<open>
  C2. For a non-empty text on which the pipeline returns a result whose label is
  \<^verbatim>\<open>POSITIVE\<close> or \<^verbatim>\<open>NEGATIVE\<close> and whose score lies in [0,1], the endpoint returns a
  response whose \<^verbatim>\<open>sentiment\<close> is one of these two labels and whose \<^verbatim>\<open>score\<close> lies in
  [0,1].
\<close>

theorem post_analyze_label_and_score:
  assumes "t \<noteq> []"
    and "classifier p t = Inr (r # rs)"
    and "label r = ''POSITIVE'' \<or> label r = ''NEGATIVE''"
    and "in_unit_interval (score r)"
  shows "\<exists>resp l s.
           fst (post_analyze p (Parsed (JObject [(''text'', JString t)]))) = Inr resp
         \<and> dict_get resp ''sentiment'' = Some (JString l)
         \<and> (l = ''POSITIVE'' \<or> l = ''NEGATIVE'')
         \<and> dict_get resp ''score'' = Some (JFloat s)
         \<and> in_unit_interval s"
proof -
  from assms(4) have "is_finite (score r)" by (rule is_finite_in_unit_interval)
  with assms(2) have
    "fst (post_analyze p (Parsed (JObject [(''text'', JString t)])))
       = Inr [(''feedback'', JString t), (''sentiment'', JString (label r)),
              (''score'', JFloat (score r))]"
    by (simp add: post_analyze_def validate_Feedback_def analyze_feedback_api_eq render_json_def
                  dict_get_def)
  moreover have "dict_get [(''feedback'', JString t), (''sentiment'', JString (label r)),
                           (''score'', JFloat (score r))] ''sentiment'' = Some (JString (label r))"
    by (simp add: dict_get_def)
  moreover have "dict_get [(''feedback'', JString t), (''sentiment'', JString (label r)),
                           (''score'', JFloat (score r))] ''score'' = Some (JFloat (score r))"
    by (simp add: dict_get_def)
  ultimately show ?thesis using assms(3,4) by blast
qed

theorem post_analyze_label_and_score_witness:
  "\<exists>resp l s.
     fst (post_analyze
            \<lparr>environ = Map.empty,
             classifier = (\<lambda>t. Inr [\<lparr>label = ''NEGATIVE'', score = Finite (97 / 100)\<rparr>])\<rparr>
            (Parsed (JObject [(''text'', JString ''This is terrible.'')]))) = Inr resp
   \<and> dict_get resp ''sentiment'' = Some (JString l)
   \<and> (l = ''POSITIVE'' \<or> l = ''NEGATIVE'')
   \<and> dict_get resp ''score'' = Some (JFloat s)
   \<and> in_unit_interval s"
proof -
  let ?r = "\<lparr>label = ''NEGATIVE'', score = Finite (97 / 100)\<rparr>"
  let ?p = "\<lparr>environ = Map.empty, classifier = (\<lambda>t. Inr [?r])\<rparr>"
  have h1: "''This is terrible.'' \<noteq> []" by simp
  have h2: "classifier ?p ''This is terrible.'' = Inr (?r # [])" by simp
  have h3: "label ?r = ''POSITIVE'' \<or> label ?r = ''NEGATIVE''" by simp
  have h4: "in_unit_interval (score ?r)" by simp
  show ?thesis by (rule post_analyze_label_and_score [OF h1 h2 h3 h4])
qed

section \<open>Rejected requests\<close>

text \<open>
  C4. A request to \<^verbatim>\<open>POST /analyze\<close> whose body is not JSON, or is a JSON object without a
  \<^verbatim>\<open>text\<close> member, or has a \<^verbatim>\<open>text\<close> member that is not a string, is answered with the
  request-validation error (the 422 response); the pipeline is not called, and the
  outcome is this error response rather than an exception leaving the handler.
\<close>

theorem post_analyze_rejects_invalid_body:
  "post_analyze p Malformed = (Inl RequestValidationError, [])
   \<and> (dict_get members ''text'' = None \<longrightarrow>
        post_analyze p (Parsed (JObject members)) = (Inl RequestValidationError, []))
   \<and> (dict_get members ''text'' = Some v \<and> (\<forall>s. v \<noteq> JString s) \<longrightarrow>
        post_analyze p (Parsed (JObject members)) = (Inl RequestValidationError, []))"
  by (auto simp: post_analyze_def validate_Feedback_def split: json.splits)

theorem post_analyze_rejects_invalid_body_witness:
  "post_analyze \<lparr>environ = Map.empty, classifier = (\<lambda>t. Inr [])\<rparr>
       (Parsed (JObject [(''comment'', JString ''no text here'')]))
     = (Inl RequestValidationError, [])
   \<and> post_analyze \<lparr>environ = Map.empty, classifier = (\<lambda>t. Inr [])\<rparr>
       (Parsed (JObject [(''text'', JInt 5)]))
     = (Inl RequestValidationError, [])"
proof -
  let ?p = "\<lparr>environ = Map.empty, classifier = (\<lambda>t. Inr [])\<rparr>"
  have h1: "dict_get [(''comment'', JString ''no text here'')] ''text'' = None"
    by (simp add: dict_get_def)
  have h2: "dict_get [(''text'', JInt 5)] ''text'' = Some (JInt 5) \<and> (\<forall>s. JInt 5 \<noteq> JString s)"
    by (simp add: dict_get_def)
  from post_analyze_rejects_invalid_body
         [of ?p "[(''comment'', JString ''no text here'')]"] h1
  have a: "post_analyze ?p (Parsed (JObject [(''comment'', JString ''no text here'')]))
             = (Inl RequestValidationError, [])"
    by blast
  from post_analyze_rejects_invalid_body [of ?p "[(''text'', JInt 5)]" "JInt 5"] h2
  have b: "post_analyze ?p (Parsed (JObject [(''text'', JInt 5)]))
             = (Inl RequestValidationError, [])"
    by blast
  from a b show ?thesis by blast
qed

section \<open>The environment variable\<close>

text \<open>
  C7. At startup the variable \<^verbatim>\<open>PYTORCH_CUDA_ALLOC_CONF\<close> is assigned the empty string
  whatever the caller's environment holds. The caller's value of that variable is never
  read: startup with any prior value, or none, gives the same process. The handlers do
  not read the environment at all, so what the front-ends answer is the same for every
  prior value.
\<close>

theorem startup_overrides_alloc_conf:
  "(\<forall>p. startup load env0 = Inr p \<longrightarrow> environ p ''PYTORCH_CUDA_ALLOC_CONF'' = Some '''')
   \<and> startup load (env0(''PYTORCH_CUDA_ALLOC_CONF'' := prior)) = startup load env0
   \<and> post_analyze (p\<lparr>environ := e\<rparr>) b = post_analyze p b
   \<and> analyze_feedback_form (p\<lparr>environ := e\<rparr>) t = analyze_feedback_form p t"
  by (auto simp: startup_def Let_def post_analyze_def analyze_feedback_api_eq
                 analyze_feedback_form_eq
           split: sum.splits)

theorem startup_overrides_alloc_conf_witness:
  "startup (\<lambda>e. Inr (\<lambda>t. Inr []))
       (Map.empty(''PYTORCH_CUDA_ALLOC_CONF'' \<mapsto> ''max_split_size_mb:128''))
     = Inr \<lparr>environ = Map.empty(''PYTORCH_CUDA_ALLOC_CONF'' \<mapsto> ''''),
            classifier = (\<lambda>t. Inr [])\<rparr>
   \<and> environ \<lparr>environ = Map.empty(''PYTORCH_CUDA_ALLOC_CONF'' \<mapsto> ''''),
               classifier = (\<lambda>t. Inr [])\<rparr> ''PYTORCH_CUDA_ALLOC_CONF'' = Some ''''"
proof -
  let ?load = "\<lambda>e :: env. (Inr (\<lambda>t. Inr []) :: error + pipeline)"
  let ?env = "(Map.empty(''PYTORCH_CUDA_ALLOC_CONF'' \<mapsto> ''max_split_size_mb:128'')) :: env"
  let ?p = "\<lparr>environ = Map.empty(''PYTORCH_CUDA_ALLOC_CONF'' \<mapsto> ''''),
             classifier = (\<lambda>t. Inr [])\<rparr> :: process"
  have run: "startup ?load ?env = Inr ?p"
    by (simp add: startup_def Let_def)
  from startup_overrides_alloc_conf [of ?load ?env] run
  have "environ ?p ''PYTORCH_CUDA_ALLOC_CONF'' = Some ''''"
    by blast
  with run show ?thesis by blast
qed

section \<open>Failures of the pipeline\<close>

text \<open>
  C8. When the pipeline raises on a text, the HTTP handler, the endpoint and the form
  handler all end with that same exception: no value is returned, nothing is substituted
  for the classification, and the pipeline was called once, not again.
\<close>

theorem pipeline_exception_propagates:
  assumes "classifier p t = Inl e"
  shows "analyze_feedback_api p \<lparr>feedback_text = t\<rparr> = (Inl e, [t])
       \<and> post_analyze p (Parsed (JObject [(''text'', JString t)])) = (Inl e, [t])
       \<and> analyze_feedback_form p t = (Inl e, [t])"
  using assms
  by (simp add: post_analyze_def validate_Feedback_def dict_get_def analyze_feedback_api_eq
                analyze_feedback_form_eq)

theorem pipeline_exception_propagates_witness:
  "analyze_feedback_api
       \<lparr>environ = Map.empty, classifier = (\<lambda>t. Inl (Raised ''RuntimeError''))\<rparr>
       \<lparr>feedback_text = ''x''\<rparr> = (Inl (Raised ''RuntimeError''), [''x''])
   \<and> post_analyze
       \<lparr>environ = Map.empty, classifier = (\<lambda>t. Inl (Raised ''RuntimeError''))\<rparr>
       (Parsed (JObject [(''text'', JString ''x'')])) = (Inl (Raised ''RuntimeError''), [''x''])
   \<and> analyze_feedback_form
       \<lparr>environ = Map.empty, classifier = (\<lambda>t. Inl (Raised ''RuntimeError''))\<rparr>
       ''x'' = (Inl (Raised ''RuntimeError''), [''x''])"
proof -
  let ?p = "\<lparr>environ = Map.empty, classifier = (\<lambda>t. Inl (Raised ''RuntimeError''))\<rparr>"
  have h: "classifier ?p ''x'' = Inl (Raised ''RuntimeError'')" by simp
  show ?thesis by (rule pipeline_exception_propagates [OF h])
qed

section \<open>Repeated calls\<close>



section \<open>The empty text\<close>

text \<open>
  C9. The body \<^verbatim>\<open>{"text": ""}\<close> passes validation; a JSON object is accepted, with the
  text \<open>t\<close>, exactly when its \<^verbatim>\<open>text\<close> member is the string \<open>t\<close>, so it is rejected only
  when that member is absent or not a string. For every text, the empty one included,
  what either front-end answers is what the pipeline does on exactly that text: its
  exception if it raises, \<open>IndexError\<close> if it returns no result, and otherwise the answer
  built from its first result. Nothing is decided by the text itself, neither its
  emptiness nor its length, and the pipeline is called once, with the text as received.
\<close>

theorem empty_text_reaches_pipeline:
  "validate_Feedback (Parsed (JObject [(''text'', JString '''')])) = Inr \<lparr>feedback_text = ''''\<rparr>
   \<and> (validate_Feedback (Parsed (JObject members)) = Inr \<lparr>feedback_text = t\<rparr>
        \<longleftrightarrow> dict_get members ''text'' = Some (JString t))
   \<and> post_analyze p (Parsed (JObject [(''text'', JString t)])) =
       ((case classifier p t of
           Inl e \<Rightarrow> Inl e
         | Inr [] \<Rightarrow> Inl IndexError
         | Inr (r # _) \<Rightarrow>
             if is_finite (score r)
             then Inr [(''feedback'', JString t), (''sentiment'', JString (label r)),
                       (''score'', JFloat (score r))]
             else Inl ValueError),
        [t])
   \<and> analyze_feedback_form p t =
       ((case classifier p t of
           Inl e \<Rightarrow> Inl e
         | Inr [] \<Rightarrow> Inl IndexError
         | Inr (r # _) \<Rightarrow> Inr (format_result r)),
        [t])
   \<and> post_analyze p (Parsed (JObject [(''text'', JString '''')])) =
       ((case classifier p '''' of
           Inl e \<Rightarrow> Inl e
         | Inr [] \<Rightarrow> Inl IndexError
         | Inr (r # _) \<Rightarrow>
             if is_finite (score r)
             then Inr [(''feedback'', JString ''''), (''sentiment'', JString (label r)),
                       (''score'', JFloat (score r))]
             else Inl ValueError),
        [''''])
   \<and> analyze_feedback_form p '''' =
       ((case classifier p '''' of
           Inl e \<Rightarrow> Inl e
         | Inr [] \<Rightarrow> Inl IndexError
         | Inr (r # _) \<Rightarrow> Inr (format_result r)),
        [''''])"
proof -
  have v: "validate_Feedback (Parsed (JObject members)) = Inr \<lparr>feedback_text = t\<rparr>
        \<longleftrightarrow> dict_get members ''text'' = Some (JString t)"
    by (auto simp: validate_Feedback_def split: option.splits json.splits)
  have api: "\<And>u. post_analyze p (Parsed (JObject [(''text'', JString u)])) =
       ((case classifier p u of
           Inl e \<Rightarrow> Inl e
         | Inr [] \<Rightarrow> Inl IndexError
         | Inr (r # _) \<Rightarrow>
             if is_finite (score r)
             then Inr [(''feedback'', JString u), (''sentiment'', JString (label r)),
                       (''score'', JFloat (score r))]
             else Inl ValueError),
        [u])"
    by (auto simp: post_analyze_def validate_Feedback_def dict_get_def analyze_feedback_api_eq
                   render_json_def
             split: sum.splits list.splits)
  have form: "\<And>u. analyze_feedback_form p u =
       ((case classifier p u of
           Inl e \<Rightarrow> Inl e
         | Inr [] \<Rightarrow> Inl IndexError
         | Inr (r # _) \<Rightarrow> Inr (format_result r)),
        [u])"
    by (simp add: analyze_feedback_form_eq split: sum.splits list.splits)
  have e: "validate_Feedback (Parsed (JObject [(''text'', JString '''')]))
             = Inr \<lparr>feedback_text = ''''\<rparr>"
    by (simp add: validate_Feedback_def dict_get_def)
  from e v api [of t] form [of t] api [of "''''"] form [of "''''"] show ?thesis
    by blast
qed

theorem empty_text_reaches_pipeline_witness:
  "validate_Feedback (Parsed (JObject [(''note'', JNull), (''text'', JString '''')]))
     = Inr \<lparr>feedback_text = ''''\<rparr>
   \<and> post_analyze
       \<lparr>environ = Map.empty,
        classifier = (\<lambda>t. if t = '''' then Inr [\<lparr>label = ''NEGATIVE'', score = Finite (1 / 2)\<rparr>]
                           else Inl (Raised ''RuntimeError''))\<rparr>
       (Parsed (JObject [(''text'', JString '''')]))
     = (Inr [(''feedback'', JString ''''), (''sentiment'', JString ''NEGATIVE''),
             (''score'', JFloat (Finite (1 / 2)))], [''''])
   \<and> analyze_feedback_form
       \<lparr>environ = Map.empty,
        classifier = (\<lambda>t. if t = '''' then Inl (Raised ''empty'') else Inr [])\<rparr> ''''
     = (Inl (Raised ''empty''), [''''])"
proof -
  let ?p = "\<lparr>environ = Map.empty,
             classifier = (\<lambda>t. if t = '''' then Inr [\<lparr>label = ''NEGATIVE'', score = Finite (1 / 2)\<rparr>]
                                else Inl (Raised ''RuntimeError''))\<rparr>"
  let ?p' = "\<lparr>environ = Map.empty,
              classifier = (\<lambda>t. if t = '''' then Inl (Raised ''empty'') else Inr [])\<rparr>"
  let ?m = "[(''note'', JNull), (''text'', JString '''')]"
  have h: "dict_get ?m ''text'' = Some (JString '''')"
    by (simp add: dict_get_def)
  from empty_text_reaches_pipeline [of ?m "''''" ?p] h
  have a: "validate_Feedback (Parsed (JObject ?m)) = Inr \<lparr>feedback_text = ''''\<rparr>"
    by blast
  from empty_text_reaches_pipeline [of ?m "''''" ?p]
  have b: "post_analyze ?p (Parsed (JObject [(''text'', JString '''')]))
             = (Inr [(''feedback'', JString ''''), (''sentiment'', JString ''NEGATIVE''),
                     (''score'', JFloat (Finite (1 / 2)))], [''''])"
    by simp
  from empty_text_reaches_pipeline [of ?m "''''" ?p']
  have c: "analyze_feedback_form ?p' '''' = (Inl (Raised ''empty''), [''''])"
    by simp
  from a b c show ?thesis by blast
qed

section \<open>The text shown by the form\<close>




section \<open>The two front-ends side by side\<close>

text \<open>
  C6. For the same text and the same result of the pipeline, the endpoint and the form
  report the same classification. Whenever both answer, the sentiment the form shows is
  the capitalised \<^verbatim>\<open>sentiment\<close> of the response, equal to it up to case, and the confidence
  it shows is the \<^verbatim>\<open>.4f\<close> rendering of the \<^verbatim>\<open>score\<close> of the response: the numeral shown
  denotes that score rounded to four decimal places. Both do answer, from the first
  result of the pipeline, when the pipeline yields one whose score is a finite number.
\<close>

theorem front_ends_agree:
  "(\<forall>resp out.
      fst (post_analyze p (text_body t)) = Inr resp \<and> fst (analyze_feedback_form p t) = Inr out \<longrightarrow>
      (\<exists>l x s c.
          dict_get resp ''sentiment'' = Some (JString l)
        \<and> dict_get resp ''score'' = Some (JFloat x)
        \<and> out = str_of ''Sentiment: '' @ s @ [10] @ str_of ''Confidence: '' @ str_of c
        \<and> s = capitalize l
        \<and> casefold s = casefold (str_of l)
        \<and> c = format_4f x
        \<and> (\<forall>q. x = Finite q \<longrightarrow> (\<exists>v. decimal_value c = Some v \<and> is_rounded4 q v))
        \<and> (x = NegZero \<longrightarrow> decimal_value c = Some 0)))
   \<and> (\<forall>r rs. classifier p t = Inr (r # rs) \<and> is_finite (score r) \<longrightarrow>
        fst (post_analyze p (text_body t)) =
          Inr [(''feedback'', JString t), (''sentiment'', JString (label r)),
               (''score'', JFloat (score r))]
        \<and> fst (analyze_feedback_form p t) = Inr (format_result r))"
proof (intro conjI allI impI)
  fix resp out
  assume both: "fst (post_analyze p (text_body t)) = Inr resp
                \<and> fst (analyze_feedback_form p t) = Inr out"
  then obtain r rs where cls: "classifier p t = Inr (r # rs)"
    by (auto simp: analyze_feedback_form_eq split: sum.splits list.splits)
  from both cls have resp: "resp = [(''feedback'', JString t), (''sentiment'', JString (label r)),
                                    (''score'', JFloat (score r))]"
    by (auto simp: post_analyze_def validate_text_body analyze_feedback_api_eq render_json_def
             split: if_splits)
  from both cls have out: "out = str_of ''Sentiment: '' @ capitalize (label r) @ [10]
                                   @ str_of ''Confidence: '' @ str_of (format_4f (score r))"
    by (simp add: analyze_feedback_form_eq format_result_def)
  have sent: "dict_get resp ''sentiment'' = Some (JString (label r))"
    by (simp add: resp dict_get_def)
  have sc: "dict_get resp ''score'' = Some (JFloat (score r))"
    by (simp add: resp dict_get_def)
  have fold: "casefold (capitalize (label r)) = casefold (str_of (label r))"
    by (rule casefold_capitalize)
  have num: "\<forall>q. score r = Finite q \<longrightarrow>
               (\<exists>v. decimal_value (format_4f (score r)) = Some v \<and> is_rounded4 q v)"
    using format_4f_rounded by simp
  have zero: "score r = NegZero \<longrightarrow> decimal_value (format_4f (score r)) = Some 0"
    using decimal_value_format_fixed4 [of 0 True] by (simp add: round_half_even_def)
  from sent sc out fold num zero
  show "\<exists>l x s c.
          dict_get resp ''sentiment'' = Some (JString l)
        \<and> dict_get resp ''score'' = Some (JFloat x)
        \<and> out = str_of ''Sentiment: '' @ s @ [10] @ str_of ''Confidence: '' @ str_of c
        \<and> s = capitalize l
        \<and> casefold s = casefold (str_of l)
        \<and> c = format_4f x
        \<and> (\<forall>q. x = Finite q \<longrightarrow> (\<exists>v. decimal_value c = Some v \<and> is_rounded4 q v))
        \<and> (x = NegZero \<longrightarrow> decimal_value c = Some 0)"
    by blast
next
  fix r rs
  assume "classifier p t = Inr (r # rs) \<and> is_finite (score r)"
  then show "fst (post_analyze p (text_body t)) =
          Inr [(''feedback'', JString t), (''sentiment'', JString (label r)),
               (''score'', JFloat (score r))]"
    by (simp add: post_analyze_def validate_text_body analyze_feedback_api_eq render_json_def)
next
  fix r rs
  assume "classifier p t = Inr (r # rs) \<and> is_finite (score r)"
  then show "fst (analyze_feedback_form p t) = Inr (format_result r)"
    by (simp add: analyze_feedback_form_eq)
qed

theorem front_ends_agree_witness:
  "fst (post_analyze
          \<lparr>environ = Map.empty,
           classifier = (\<lambda>t. Inr [\<lparr>label = ''POSITIVE'', score = Finite (1 / 32)\<rparr>])\<rparr>
          (text_body ''so so''))
     = Inr [(''feedback'', JString ''so so''), (''sentiment'', JString ''POSITIVE''),
            (''score'', JFloat (Finite (1 / 32)))]
   \<and> fst (analyze_feedback_form
          \<lparr>environ = Map.empty,
           classifier = (\<lambda>t. Inr [\<lparr>label = ''POSITIVE'', score = Finite (1 / 32)\<rparr>])\<rparr>
          ''so so'')
     = Inr (str_of ''Sentiment: Positive'' @ [10] @ str_of ''Confidence: 0.0312'')
   \<and> casefold (str_of ''Positive'') = casefold (str_of ''POSITIVE'')
   \<and> (\<exists>v. decimal_value ''0.0312'' = Some v \<and> is_rounded4 (1 / 32) v)"
proof -
  let ?r = "\<lparr>label = ''POSITIVE'', score = Finite (1 / 32)\<rparr>"
  let ?p = "\<lparr>environ = Map.empty, classifier = (\<lambda>t. Inr [?r])\<rparr>"
  let ?resp = "[(''feedback'', JString ''so so''), (''sentiment'', JString ''POSITIVE''),
                (''score'', JFloat (Finite (1 / 32)))]"
  let ?out = "str_of ''Sentiment: Positive'' @ [10] @ str_of ''Confidence: 0.0312''"
  note inst = front_ends_agree [of ?p "''so so''"]
  have h: "classifier ?p ''so so'' = Inr (?r # []) \<and> is_finite (score ?r)" by simp
  from inst h have a: "fst (post_analyze ?p (text_body ''so so'')) = Inr ?resp"
    by (simp del: format_4f.simps)
  have cap: "capitalize ''POSITIVE'' = str_of ''Positive''"
    by (simp add: capitalize_def title_char_def lower_char_def str_of_def)
  from inst h have "fst (analyze_feedback_form ?p ''so so'') = Inr (format_result ?r)"
    by (simp del: format_4f.simps)
  then have b: "fst (analyze_feedback_form ?p ''so so'') = Inr ?out"
    by (simp add: format_result_def cap format_4f_tie_down str_of_def del: format_4f.simps)
  from inst a b obtain l x s c where
    l: "dict_get ?resp ''sentiment'' = Some (JString l)"
    and x: "dict_get ?resp ''score'' = Some (JFloat x)"
    and s: "s = capitalize l"
    and f: "casefold s = casefold (str_of l)"
    and c: "c = format_4f x"
    and n: "\<forall>q. x = Finite q \<longrightarrow> (\<exists>v. decimal_value c = Some v \<and> is_rounded4 q v)"
    by blast
  from l have l': "l = ''POSITIVE''" by (simp add: dict_get_def)
  from x have x': "x = Finite (1 / 32)" by (simp add: dict_get_def)
  from f s l' cap have f': "casefold (str_of ''Positive'') = casefold (str_of ''POSITIVE'')"
    by simp
  from n c x' have n': "\<exists>v. decimal_value ''0.0312'' = Some v \<and> is_rounded4 (1 / 32) v"
    by (simp add: format_4f_tie_down del: format_4f.simps)
  from a b f' n' show ?thesis by blast
qed
end
